theory Spec2Isabelle
  imports Main "HOL-Library.Word"
begin

section \<open>JavaScript strings\<close>

text \<open>
  A JavaScript string is a sequence of UTF-16 code units, and every string operation the
  program uses (\<^verbatim>\<open>startsWith\<close>, \<^verbatim>\<open>slice\<close>, \<^verbatim>\<open>trim\<close>, \<^verbatim>\<open>includes\<close>, \<^verbatim>\<open>replace\<close> with
  a regular expression without the \<^verbatim>\<open>u\<close> flag, \<^verbatim>\<open>charCodeAt\<close>) works on code units. A string
  is therefore a list of 16-bit words; \<open>js\<close> writes an ASCII literal.
\<close>

type_synonym jchar = "16 word"
type_synonym jstring = "jchar list"

definition js :: "string \<Rightarrow> jstring" where
  "js s = map (\<lambda>c. word_of_nat (of_char c)) s"

definition CHAR_DOT :: jchar where
  "CHAR_DOT = 46"

definition CHAR_FORWARD_SLASH :: jchar where
  "CHAR_FORWARD_SLASH = 47"

definition CHAR_BACKWARD_SLASH :: jchar where
  "CHAR_BACKWARD_SLASH = 92"

text \<open>\<^verbatim>\<open>s.startsWith(p)\<close>.\<close>

definition startsWith :: "jstring \<Rightarrow> jstring \<Rightarrow> bool" where
  "startsWith s p = (take (length p) s = p)"

text \<open>
  \<^verbatim>\<open>s.slice(start, end)\<close> and \<^verbatim>\<open>s.slice(start)\<close>, of strings, arrays and typed arrays alike:
  a negative index counts from the end, and both indices are clamped to the sequence.
\<close>

definition slice_index :: "'a list \<Rightarrow> int \<Rightarrow> nat" where
  "slice_index s k =
     (if k < 0 then nat (max (int (length s) + k) 0) else min (nat k) (length s))"

definition slice :: "'a list \<Rightarrow> int \<Rightarrow> int \<Rightarrow> 'a list" where
  "slice s from to =
     (let a = slice_index s from; b = slice_index s to in take (b - a) (drop a s))"

definition slice_from :: "'a list \<Rightarrow> int \<Rightarrow> 'a list" where
  "slice_from s from = drop (slice_index s from) s"

text \<open>\<^verbatim>\<open>s.charCodeAt(k)\<close> is \<^verbatim>\<open>NaN\<close> outside the string: \<open>None\<close>.\<close>

definition charCodeAt :: "jstring \<Rightarrow> int \<Rightarrow> jchar option" where
  "charCodeAt s k = (if 0 \<le> k \<and> k < int (length s) then Some (s ! nat k) else None)"

text \<open>\<^verbatim>\<open>s.lastIndexOf(c)\<close> for a one-character needle; \<open>-1\<close> when absent.\<close>

definition lastIndexOf :: "jstring \<Rightarrow> jchar \<Rightarrow> int" where
  "lastIndexOf s c =
     (if c \<in> set s
      then int (length s) - 1 - int (length (takeWhile (\<lambda>x. x \<noteq> c) (rev s)))
      else - 1)"

text \<open>
  The code units that \<^verbatim>\<open>trim\<close> strips: the WhiteSpace and LineTerminator productions of
  ECMAScript.
\<close>

definition isWhiteSpace :: "jchar \<Rightarrow> bool" where
  "isWhiteSpace c =
     (c \<in> set [0x09, 0x0A, 0x0B, 0x0C, 0x0D, 0x20, 0xA0, 0x1680, 0x2028, 0x2029,
                0x202F, 0x205F, 0x3000, 0xFEFF]
      \<or> (0x2000 \<le> c \<and> c \<le> 0x200A))"

definition trimStart :: "jstring \<Rightarrow> jstring" where
  "trimStart s = dropWhile isWhiteSpace s"

definition trim :: "jstring \<Rightarrow> jstring" where
  "trim s = rev (dropWhile isWhiteSpace (rev (dropWhile isWhiteSpace s)))"

section \<open>The path functions of the Deno standard library\<close>

text \<open>
  \<^verbatim>\<open>path_safety.ts\<close> imports \<^verbatim>\<open>join\<close>, \<^verbatim>\<open>normalize\<close> and \<^verbatim>\<open>isAbsolute\<close> from
  \<^verbatim>\<open>std@0.208.0/path/mod.ts\<close>. The program runs in the Linux image of the Dockerfile, where
  that module exports the POSIX implementations. They are library code, translated here
  from the library's \<^verbatim>\<open>posix/\<close> and \<^verbatim>\<open>_common/normalize_string.ts\<close> sources: the loop of
  \<^verbatim>\<open>normalizeString\<close> runs over the indices \<open>0 .. length path\<close>, carrying \<^verbatim>\<open>res\<close>,
  \<^verbatim>\<open>lastSegmentLength\<close>, \<^verbatim>\<open>lastSlash\<close> and \<^verbatim>\<open>dots\<close>.
\<close>

definition isPosixPathSeparator :: "jchar option \<Rightarrow> bool" where
  "isPosixPathSeparator code = (code = Some CHAR_FORWARD_SLASH)"

definition isAbsolute :: "jstring \<Rightarrow> bool" where
  "isAbsolute path = (length path > 0 \<and> isPosixPathSeparator (charCodeAt path 0))"

record ns_state =
  res :: jstring
  lastSegmentLength :: int
  lastSlash :: int
  dots :: int

text \<open>
  One pass through the loop body at index \<open>i\<close> with the current code unit \<open>code\<close>. Both
  \<^verbatim>\<open>continue\<close> statements of the source are preceded by the assignments
  \<^verbatim>\<open>lastSlash = i; dots = 0\<close> and end the pass. \<open>endsInDots\<close> is the negation of the source's
  test \<^verbatim>\<open>res.length < 2 || lastSegmentLength !== 2 || res.charCodeAt(res.length - 1) !== CHAR_DOT
  || res.charCodeAt(res.length - 2) !== CHAR_DOT\<close>.
\<close>

definition normalizeString_body :: "jstring \<Rightarrow> bool \<Rightarrow> int \<Rightarrow> jchar \<Rightarrow> ns_state \<Rightarrow> ns_state" where
  "normalizeString_body path allowAboveRoot i code st =
     (if code = CHAR_FORWARD_SLASH then
        (if lastSlash st = i - 1 \<or> dots st = 1 then
           st\<lparr>lastSlash := i, dots := 0\<rparr>
         else if dots st = 2 then
           (let r = res st;
                endsInDots = (2 \<le> length r \<and> lastSegmentLength st = 2
                  \<and> charCodeAt r (int (length r) - 1) = Some CHAR_DOT
                  \<and> charCodeAt r (int (length r) - 2) = Some CHAR_DOT)
            in if \<not> endsInDots \<and> length r > 2 then
                 (let lastSlashIndex = lastIndexOf r CHAR_FORWARD_SLASH
                  in if lastSlashIndex = - 1 then
                       st\<lparr>res := [], lastSegmentLength := 0, lastSlash := i, dots := 0\<rparr>
                     else
                       (let r' = slice r 0 lastSlashIndex
                        in st\<lparr>res := r',
                              lastSegmentLength :=
                                int (length r') - 1 - lastIndexOf r' CHAR_FORWARD_SLASH,
                              lastSlash := i, dots := 0\<rparr>))
               else if \<not> endsInDots \<and> (length r = 2 \<or> length r = 1) then
                 st\<lparr>res := [], lastSegmentLength := 0, lastSlash := i, dots := 0\<rparr>
               else if allowAboveRoot then
                 st\<lparr>res := (if length r > 0 then r @ js ''/..'' else js ''..''),
                    lastSegmentLength := 2, lastSlash := i, dots := 0\<rparr>
               else
                 st\<lparr>lastSlash := i, dots := 0\<rparr>)
         else
           (let seg = slice path (lastSlash st + 1) i
            in st\<lparr>res := (if length (res st) > 0 then res st @ [CHAR_FORWARD_SLASH] @ seg
                           else seg),
                  lastSegmentLength := i - lastSlash st - 1,
                  lastSlash := i, dots := 0\<rparr>))
      else if code = CHAR_DOT \<and> dots st \<noteq> - 1 then
        st\<lparr>dots := dots st + 1\<rparr>
      else
        st\<lparr>dots := - 1\<rparr>)"

text \<open>
  The loop \<^verbatim>\<open>for (let i = 0, len = path.length; i <= len; ++i)\<close>. The third argument is
  the part of \<open>path\<close> from index \<open>i\<close> on. At \<open>i = len\<close> the loop stops when the last code
  unit read was a separator, and otherwise runs the body once more with a separator.
\<close>

fun normalizeString_loop :: "jstring \<Rightarrow> bool \<Rightarrow> jstring \<Rightarrow> int \<Rightarrow> ns_state \<Rightarrow> ns_state" where
  "normalizeString_loop path allowAboveRoot [] i st =
     (if isPosixPathSeparator (charCodeAt path (int (length path) - 1)) then st
      else normalizeString_body path allowAboveRoot i CHAR_FORWARD_SLASH st)"
| "normalizeString_loop path allowAboveRoot (code # rest) i st =
     normalizeString_loop path allowAboveRoot rest (i + 1)
       (normalizeString_body path allowAboveRoot i code st)"

definition normalizeString :: "jstring \<Rightarrow> bool \<Rightarrow> jstring" where
  "normalizeString path allowAboveRoot =
     res (normalizeString_loop path allowAboveRoot path 0
            \<lparr>res = [], lastSegmentLength = 0, lastSlash = - 1, dots = 0\<rparr>)"

definition normalize :: "jstring \<Rightarrow> jstring" where
  "normalize path =
     (let isAbs = isPosixPathSeparator (charCodeAt path 0);
          trailingSeparator = isPosixPathSeparator (charCodeAt path (int (length path) - 1));
          p1 = normalizeString path (\<not> isAbs);
          p2 = (if length p1 = 0 \<and> \<not> isAbs then js ''.'' else p1);
          p3 = (if length p2 > 0 \<and> trailingSeparator then p2 @ js ''/'' else p2)
      in if isAbs then js ''/'' @ p3 else p3)"

text \<open>\<^verbatim>\<open>join(...paths)\<close>: the non-empty arguments joined by \<^verbatim>\<open>/\<close>, then normalized.\<close>

fun join_paths :: "jstring option \<Rightarrow> jstring list \<Rightarrow> jstring option" where
  "join_paths joined [] = joined"
| "join_paths joined (path # paths) =
     (if length path > 0 then
        (case joined of
           None \<Rightarrow> join_paths (Some path) paths
         | Some j \<Rightarrow> join_paths (Some (j @ js ''/'' @ path)) paths)
      else join_paths joined paths)"

definition join :: "jstring list \<Rightarrow> jstring" where
  "join paths =
     (if length paths = 0 then js ''.''
      else (case join_paths None paths of None \<Rightarrow> js ''.'' | Some joined \<Rightarrow> normalize joined))"

section \<open>Path safety (\<^verbatim>\<open>path_safety.ts\<close>)\<close>

text \<open>\<^verbatim>\<open>filePath.replace(/\\/g, "/")\<close>.\<close>

definition replaceBackslashes :: "jstring \<Rightarrow> jstring" where
  "replaceBackslashes s = map (\<lambda>c. if c = CHAR_BACKWARD_SLASH then CHAR_FORWARD_SLASH else c) s"

text \<open>\<^verbatim>\<open>s.replace(/\/+/g, "/")\<close>: every maximal run of slashes becomes one slash.\<close>

fun collapseSlashes :: "jstring \<Rightarrow> jstring" where
  "collapseSlashes (c # d # s) =
     (if c = CHAR_FORWARD_SLASH \<and> d = CHAR_FORWARD_SLASH then collapseSlashes (d # s)
      else c # collapseSlashes (d # s))"
| "collapseSlashes s = s"

text \<open>\<^verbatim>\<open>/^[a-zA-Z]:/.test(s)\<close>.\<close>

definition isAsciiLetter :: "jchar \<Rightarrow> bool" where
  "isAsciiLetter c = ((0x61 \<le> c \<and> c \<le> 0x7A) \<or> (0x41 \<le> c \<and> c \<le> 0x5A))"

fun hasDriveLetter :: "jstring \<Rightarrow> bool" where
  "hasDriveLetter (c # d # s) = (isAsciiLetter c \<and> d = 0x3A)"
| "hasDriveLetter s = False"

definition isPathSafe :: "jstring \<Rightarrow> jstring \<Rightarrow> bool" where
  "isPathSafe filePath baseDir =
     (if filePath = [] \<or> trim filePath = [] then False
      else if 0 \<in> set filePath then False
      else if filePath = js ''.'' \<or> filePath = js ''..'' then False
      else
        (let normalizedInput = replaceBackslashes filePath
         in if isAbsolute normalizedInput \<or> startsWith normalizedInput (js ''/'') then False
            else if hasDriveLetter normalizedInput then False
            else
              (let fullPath = normalize (join [baseDir, normalizedInput]);
                   normalizedBase = normalize baseDir
               in if \<not> startsWith fullPath normalizedBase then False
                  else
                    (let relativePart = slice_from fullPath (int (length normalizedBase))
                     in if relativePart = [] \<and> normalizedInput \<noteq> [] then False
                        else True))))"

definition sanitizePath :: "jstring \<Rightarrow> jstring" where
  "sanitizePath filePath = collapseSlashes (replaceBackslashes (trim filePath))"

section \<open>Decryption (\<^verbatim>\<open>crypto.ts\<close>)\<close>

text \<open>
  The functions of this module and of the extractor are asynchronous. The program awaits
  every call before it makes the next, so each is modelled as running to completion.
  Console output is not modelled.
\<close>

subsection \<open>Platform primitives\<close>

text \<open>
  The Web Crypto operations and the text codecs are platform primitives. They are
  parameters of the model: every theorem holds for whatever functions they are.
  A \<^verbatim>\<open>CryptoKey\<close> is modelled by its raw key material. \<open>aes_gcm_decrypt key iv data\<close> is
  \<^verbatim>\<open>crypto.subtle.decrypt\<close> with a 128-bit tag; \<open>None\<close> is its rejection.
\<close>

type_synonym bytes = "8 word list"

record webcrypto =
  pbkdf2_sha256 :: "bytes \<Rightarrow> bytes \<Rightarrow> nat \<Rightarrow> bytes"
  hkdf_sha256 :: "bytes \<Rightarrow> bytes \<Rightarrow> bytes"
  sha256 :: "bytes \<Rightarrow> bytes"
  aes_gcm_decrypt :: "bytes \<Rightarrow> bytes \<Rightarrow> bytes \<Rightarrow> bytes option"
  utf8_encode :: "jstring \<Rightarrow> bytes"
  utf8_decode :: "bytes \<Rightarrow> jstring"

subsection \<open>\<^verbatim>\<open>atob\<close>\<close>

text \<open>
  \<^verbatim>\<open>atob\<close> is the forgiving-base64 decoder of the HTML standard: ASCII whitespace is
  removed; one or two trailing \<^verbatim>\<open>=\<close> are removed when the length is a multiple of four; a
  length of one modulo four, or any code unit outside the base64 alphabet, is an
  \<^verbatim>\<open>InvalidCharacterError\<close> (\<open>None\<close>). The result is a string of code units below 256.
\<close>

definition isAsciiWhitespace :: "jchar \<Rightarrow> bool" where
  "isAsciiWhitespace c = (c \<in> set [0x09, 0x0A, 0x0C, 0x0D, 0x20])"

definition base64Value :: "jchar \<Rightarrow> nat option" where
  "base64Value c =
     (if 0x41 \<le> c \<and> c \<le> 0x5A then Some (unat c - 0x41)
      else if 0x61 \<le> c \<and> c \<le> 0x7A then Some (unat c - 0x61 + 26)
      else if 0x30 \<le> c \<and> c \<le> 0x39 then Some (unat c - 0x30 + 52)
      else if c = 0x2B then Some 62
      else if c = 0x2F then Some 63
      else None)"

fun base64Groups :: "nat list \<Rightarrow> nat list" where
  "base64Groups (a # b # c # d # r) =
     [a * 4 + b div 16, (b mod 16) * 16 + c div 4, (c mod 4) * 64 + d] @ base64Groups r"
| "base64Groups [a, b, c] = [a * 4 + b div 16, (b mod 16) * 16 + c div 4]"
| "base64Groups [a, b] = [a * 4 + b div 16]"
| "base64Groups r = []"

definition stripPadding :: "jstring \<Rightarrow> jstring" where
  "stripPadding d =
     (if length d mod 4 = 0 then
        (if 2 \<le> length d \<and> drop (length d - 2) d = js ''=='' then take (length d - 2) d
         else if 1 \<le> length d \<and> drop (length d - 1) d = js ''='' then take (length d - 1) d
         else d)
      else d)"

definition atob :: "jstring \<Rightarrow> jstring option" where
  "atob data =
     (let d = stripPadding (filter (\<lambda>c. \<not> isAsciiWhitespace c) data)
      in if length d mod 4 = 1 then None
         else (case those (map base64Value d) of
                 None \<Rightarrow> None
               | Some vs \<Rightarrow> Some (map word_of_nat (base64Groups vs))))"

text \<open>\<^verbatim>\<open>Uint8Array.from(s, (c) => c.charCodeAt(0))\<close>.\<close>

definition uint8ArrayFrom :: "jstring \<Rightarrow> bytes" where
  "uint8ArrayFrom s = map ucast s"

subsection \<open>Hexadecimal text\<close>

definition hexDigitValue :: "jchar \<Rightarrow> nat option" where
  "hexDigitValue c =
     (if 0x30 \<le> c \<and> c \<le> 0x39 then Some (unat c - 0x30)
      else if 0x61 \<le> c \<and> c \<le> 0x66 then Some (unat c - 0x61 + 10)
      else if 0x41 \<le> c \<and> c \<le> 0x46 then Some (unat c - 0x41 + 10)
      else None)"

text \<open>The character class \<^verbatim>\<open>[0-9a-fA-F]\<close>.\<close>

definition isHexDigit :: "jchar \<Rightarrow> bool" where
  "isHexDigit c = (case hexDigitValue c of None \<Rightarrow> False | Some v \<Rightarrow> True)"

text \<open>
  \<^verbatim>\<open>parseInt(s, 16)\<close>: leading white space is skipped, then an optional sign, then an
  optional \<^verbatim>\<open>0x\<close> or \<^verbatim>\<open>0X\<close>, then the longest run of hexadecimal digits; \<open>None\<close> is
  \<^verbatim>\<open>NaN\<close>, when that run is empty. The value is the mathematical one, which is what
  JavaScript returns on the two-character arguments of \<^verbatim>\<open>hexStringToUint8Array\<close>.
\<close>

definition parseInt16 :: "jstring \<Rightarrow> int option" where
  "parseInt16 s =
     (let s1 = trimStart s;
          negative = startsWith s1 (js ''-'');
          s2 = (if startsWith s1 (js ''-'') \<or> startsWith s1 (js ''+'') then drop 1 s1 else s1);
          s3 = (if startsWith s2 (js ''0x'') \<or> startsWith s2 (js ''0X'') then drop 2 s2 else s2);
          digits = takeWhile isHexDigit s3;
          v = foldl (\<lambda>a c. 16 * a + (case hexDigitValue c of None \<Rightarrow> 0 | Some d \<Rightarrow> int d)) 0 digits
      in if digits = [] then None else Some (if negative then - v else v))"

text \<open>Storing a number into a \<^verbatim>\<open>Uint8Array\<close>: \<^verbatim>\<open>NaN\<close> becomes 0, an integer wraps modulo 256.\<close>

definition toUint8 :: "int option \<Rightarrow> 8 word" where
  "toUint8 n = (case n of None \<Rightarrow> 0 | Some v \<Rightarrow> word_of_int v)"

text \<open>
  The array has \<open>length hexString div 2\<close> elements; the loop's store for a trailing odd
  character falls outside the array and is dropped.
\<close>

fun hexStringToUint8Array :: "jstring \<Rightarrow> bytes" where
  "hexStringToUint8Array (a # b # rest) = toUint8 (parseInt16 [a, b]) # hexStringToUint8Array rest"
| "hexStringToUint8Array rest = []"

text \<open>\<^verbatim>\<open>b.toString(16).padStart(2, '0')\<close> for a byte.\<close>

definition hexDigitChar :: "nat \<Rightarrow> jchar" where
  "hexDigitChar n = (if n < 10 then word_of_nat (0x30 + n) else word_of_nat (0x61 + n - 10))"

definition byteToHex :: "8 word \<Rightarrow> jstring" where
  "byteToHex b = [hexDigitChar (unat b div 16), hexDigitChar (unat b mod 16)]"

subsection \<open>Module state and key derivation\<close>

definition HKDF_PREFIX :: jstring where
  "HKDF_PREFIX = js ''%=''"

definition INLINE_PREFIX :: jstring where
  "INLINE_PREFIX = js ''%''"

definition PBKDF2_ITERATIONS :: nat where
  "PBKDF2_ITERATIONS = 310000"

definition V2_LEGACY_ITERATIONS :: nat where
  "V2_LEGACY_ITERATIONS = 100000"

text \<open>The module-level variables of \<^verbatim>\<open>crypto.ts\<close>; \<open>None\<close> is \<^verbatim>\<open>null\<close>.\<close>

record crypto_state =
  globalPBKDF2Salt :: "bytes option"
  cachedHKDFKey :: "bytes option"
  cachedPassphrase :: "jstring option"
  v2LegacyKeyCache :: "jstring \<rightharpoonup> bytes"

definition initial_crypto_state :: crypto_state where
  "initial_crypto_state =
     \<lparr>globalPBKDF2Salt = None, cachedHKDFKey = None, cachedPassphrase = None,
      v2LegacyKeyCache = Map.empty\<rparr>"

datatype crypto_error =
    SaltNotSet
  | DataTooShort nat
  | LegacyTooShort nat
  | InvalidCharacterError
  | OperationError
  | NotEncrypted

definition setPBKDF2Salt :: "bytes \<Rightarrow> crypto_state \<Rightarrow> crypto_state" where
  "setPBKDF2Salt salt st =
     st\<lparr>globalPBKDF2Salt := Some salt, cachedHKDFKey := None, cachedPassphrase := None\<rparr>"

definition getHKDFMasterKey ::
  "webcrypto \<Rightarrow> jstring \<Rightarrow> crypto_state \<Rightarrow> (crypto_error + bytes) \<times> crypto_state" where
  "getHKDFMasterKey W passphrase st =
     (case (if cachedPassphrase st = Some passphrase then cachedHKDFKey st else None) of
        Some key \<Rightarrow> (Inr key, st)
      | None \<Rightarrow>
          (case globalPBKDF2Salt st of
             None \<Rightarrow> (Inl SaltNotSet, st)
           | Some salt \<Rightarrow>
               (let pbkdf2Bits = pbkdf2_sha256 W (utf8_encode W passphrase) salt PBKDF2_ITERATIONS
                in (Inr pbkdf2Bits,
                    st\<lparr>cachedHKDFKey := Some pbkdf2Bits, cachedPassphrase := Some passphrase\<rparr>))))"

definition deriveChunkKeyHKDF ::
  "webcrypto \<Rightarrow> jstring \<Rightarrow> bytes \<Rightarrow> crypto_state \<Rightarrow> (crypto_error + bytes) \<times> crypto_state" where
  "deriveChunkKeyHKDF W passphrase hkdfSalt st =
     (case getHKDFMasterKey W passphrase st of
        (Inl e, st') \<Rightarrow> (Inl e, st')
      | (Inr hkdfKey, st') \<Rightarrow> (Inr (hkdf_sha256 W hkdfKey hkdfSalt), st'))"

definition legacyCacheKey :: "jstring \<Rightarrow> bytes \<Rightarrow> jstring" where
  "legacyCacheKey passphrase salt = passphrase @ js '':'' @ concat (map byteToHex salt)"

definition deriveV2LegacyKey ::
  "webcrypto \<Rightarrow> jstring \<Rightarrow> bytes \<Rightarrow> crypto_state \<Rightarrow> bytes \<times> crypto_state" where
  "deriveV2LegacyKey W passphrase salt st =
     (let cacheKey = legacyCacheKey passphrase salt
      in case v2LegacyKeyCache st cacheKey of
           Some key \<Rightarrow> (key, st)
         | None \<Rightarrow>
             (let passphraseHash = sha256 W (utf8_encode W passphrase);
                  keyBits = pbkdf2_sha256 W passphraseHash salt V2_LEGACY_ITERATIONS
              in (keyBits, st\<lparr>v2LegacyKeyCache := (v2LegacyKeyCache st)(cacheKey \<mapsto> keyBits)\<rparr>)))"

subsection \<open>Payload decoding and decryption\<close>

text \<open>\<^verbatim>\<open>s.replace(/=+$/, "")\<close> followed by padding to a multiple of four.\<close>

definition stripTrailingEquals :: "jstring \<Rightarrow> jstring" where
  "stripTrailingEquals s = rev (dropWhile (\<lambda>c. c = 0x3D) (rev s))"

definition repad :: "jstring \<Rightarrow> jstring" where
  "repad s =
     (let base64Part = stripTrailingEquals s;
          paddingNeeded = (4 - length base64Part mod 4) mod 4
      in base64Part @ replicate paddingNeeded 0x3D)"

definition decryptHKDF ::
  "webcrypto \<Rightarrow> jstring \<Rightarrow> jstring \<Rightarrow> crypto_state \<Rightarrow> (crypto_error + jstring) \<times> crypto_state" where
  "decryptHKDF W encryptedData passphrase st =
     (let paddedBase64 = repad (slice_from encryptedData (int (length HKDF_PREFIX)))
      in case atob paddedBase64 of
           None \<Rightarrow> (Inl InvalidCharacterError, st)
         | Some decoded \<Rightarrow>
             (let binaryData = uint8ArrayFrom decoded
              in if length binaryData < 60 then (Inl (DataTooShort (length binaryData)), st)
                 else
                   (let iv = slice binaryData 0 12;
                        hkdfSalt = slice binaryData 12 44;
                        ciphertextWithTag = slice_from binaryData 44
                    in case deriveChunkKeyHKDF W passphrase hkdfSalt st of
                         (Inl e, st') \<Rightarrow> (Inl e, st')
                       | (Inr key, st') \<Rightarrow>
                           (case aes_gcm_decrypt W key iv ciphertextWithTag of
                              None \<Rightarrow> (Inl OperationError, st')
                            | Some decrypted \<Rightarrow> (Inr (utf8_decode W decrypted), st')))))"

definition decryptV2Legacy ::
  "webcrypto \<Rightarrow> jstring \<Rightarrow> jstring \<Rightarrow> crypto_state \<Rightarrow> (crypto_error + jstring) \<times> crypto_state" where
  "decryptV2Legacy W encryptedData passphrase st =
     (let data = slice_from encryptedData (int (length INLINE_PREFIX))
      in if length data < 65 then (Inl (LegacyTooShort (length data)), st)
         else
           (let ivHex = slice data 0 32;
                saltHex = slice data 32 64;
                base64Ciphertext = slice_from data 64;
                iv = hexStringToUint8Array ivHex;
                salt = hexStringToUint8Array saltHex
            in case atob (repad base64Ciphertext) of
                 None \<Rightarrow> (Inl InvalidCharacterError, st)
               | Some decoded \<Rightarrow>
                   (let ciphertextWithTag = uint8ArrayFrom decoded
                    in case deriveV2LegacyKey W passphrase salt st of
                         (key, st') \<Rightarrow>
                           (case aes_gcm_decrypt W key iv ciphertextWithTag of
                              None \<Rightarrow> (Inl OperationError, st')
                            | Some decrypted \<Rightarrow> (Inr (utf8_decode W decrypted), st')))))"

text \<open>\<^verbatim>\<open>/^[0-9a-fA-F]{32}$/.test(first32)\<close>.\<close>

definition isHexFormat :: "jstring \<Rightarrow> bool" where
  "isHexFormat first32 = (length first32 = 32 \<and> list_all isHexDigit first32)"

definition decryptV2 ::
  "webcrypto \<Rightarrow> jstring \<Rightarrow> jstring \<Rightarrow> crypto_state \<Rightarrow> (crypto_error + jstring) \<times> crypto_state" where
  "decryptV2 W encryptedData passphrase st =
     (if startsWith encryptedData HKDF_PREFIX then decryptHKDF W encryptedData passphrase st
      else if startsWith encryptedData INLINE_PREFIX then
        (let afterPrefix = slice_from encryptedData (int (length INLINE_PREFIX));
             first32 = slice afterPrefix 0 32
         in if isHexFormat first32 then decryptV2Legacy W encryptedData passphrase st
            else decryptHKDF W (HKDF_PREFIX @ afterPrefix) passphrase st)
      else (Inl NotEncrypted, st))"

definition isV2Encrypted :: "jstring \<Rightarrow> bool" where
  "isV2Encrypted data = (startsWith data HKDF_PREFIX \<or> startsWith data INLINE_PREFIX)"

definition decryptChunk ::
  "webcrypto \<Rightarrow> jstring \<Rightarrow> jstring \<Rightarrow> crypto_state \<Rightarrow> (crypto_error + jstring) \<times> crypto_state" where
  "decryptChunk W data passphrase st =
     (if \<not> isV2Encrypted data then (Inr data, st) else decryptV2 W data passphrase st)"

section \<open>Document extraction (\<^verbatim>\<open>extractor.ts\<close>)\<close>

subsection \<open>Documents and collaborators\<close>

text \<open>
  The fields of \<^verbatim>\<open>FileEntry\<close> and \<^verbatim>\<open>LeafChunk\<close> (\<^verbatim>\<open>couchdb.ts\<close>) that are strings, lists or
  maps; \<open>entry_id\<close> is \<^verbatim>\<open>_id\<close>. The numeric time stamps and the size, which the extractor
  never reads, are left out. \<open>eden\<close> maps an inline chunk's identifier to its \<^verbatim>\<open>data\<close>.
\<close>

datatype entry_type = Notes | Newnote | Plain

record FileEntry =
  entry_id :: jstring
  entry_rev :: jstring
  entry_path :: jstring
  children :: "jstring list"
  entry_type :: entry_type
  eden :: "(jstring \<rightharpoonup> jstring) option"
  deleted :: "bool option"

record LeafChunk =
  chunk_id :: jstring
  chunk_rev :: jstring
  chunk_data :: jstring

text \<open>
  The three methods of \<^verbatim>\<open>CouchDBClient\<close> that the extractor calls. They are requests to
  the remote store, so they are parameters; \<open>None\<close> is a rejected promise.
  \<open>getChunks\<close> returns the entries of its \<^verbatim>\<open>Map\<close> in iteration order.
\<close>

record couchdb_client =
  getAllFileEntries :: "FileEntry list option"
  getChunk :: "jstring \<Rightarrow> LeafChunk option"
  getChunks :: "jstring list \<Rightarrow> (jstring \<times> LeafChunk) list option"

text \<open>
  The file system is an abstract state \<open>'fs\<close> changed by \<^verbatim>\<open>ensureDir\<close> and
  \<^verbatim>\<open>Deno.writeTextFile\<close>; each returns whether it succeeded (\<open>False\<close>: it threw) and the
  file system it left behind. \<^verbatim>\<open>dirname\<close> is the library function of that name.
\<close>

record 'fs deno =
  dirname :: "jstring \<Rightarrow> jstring"
  ensureDir :: "jstring \<Rightarrow> 'fs \<Rightarrow> bool \<times> 'fs"
  writeTextFile :: "jstring \<Rightarrow> jstring \<Rightarrow> 'fs \<Rightarrow> bool \<times> 'fs"

datatype extract_error =
    MissingChunk jstring
  | DecryptFailed crypto_error
  | UnsafePath jstring
  | IOFailed

record ExtractionResult =
  totalFiles :: nat
  extractedFiles :: nat
  failedFiles :: "jstring list"
  skippedFiles :: "jstring list"

subsection \<open>Writing a file\<close>

definition writeFileSafely ::
  "'fs deno \<Rightarrow> jstring \<Rightarrow> jstring \<Rightarrow> jstring \<Rightarrow> 'fs \<Rightarrow> extract_error option \<times> 'fs" where
  "writeFileSafely D baseDir relativePath content fs =
     (if \<not> isPathSafe relativePath baseDir then (Some (UnsafePath relativePath), fs)
      else
        (let safePath = sanitizePath relativePath;
             fullPath = join [baseDir, safePath]
         in case ensureDir D (dirname D fullPath) fs of
              (False, fs1) \<Rightarrow> (Some IOFailed, fs1)
            | (True, fs1) \<Rightarrow>
                (case writeTextFile D fullPath content fs1 of
                   (False, fs2) \<Rightarrow> (Some IOFailed, fs2)
                 | (True, fs2) \<Rightarrow> (None, fs2))))"

subsection \<open>The extractor\<close>

text \<open>
  An \<^verbatim>\<open>Extractor\<close> holds its client, the passphrase and the chunk cache. The environment
  of a run adds the platform: the Web Crypto primitives and the file system operations.
\<close>

record 'fs extractor_env =
  crypto_prims :: webcrypto
  deno_prims :: "'fs deno"
  client :: couchdb_client
  passphrase :: jstring

type_synonym chunk_cache = "jstring \<rightharpoonup> LeafChunk"






text \<open>\<open>None\<close> is \<^verbatim>\<open>null\<close>.\<close>

definition getChunkData ::
  "couchdb_client \<Rightarrow> chunk_cache \<Rightarrow> jstring \<Rightarrow> FileEntry \<Rightarrow> jstring option" where
  "getChunkData C cache chunkId entry =
     (case (case eden entry of None \<Rightarrow> None | Some inline \<Rightarrow> inline chunkId) of
        Some inlineData \<Rightarrow> Some inlineData
      | None \<Rightarrow>
          (case cache chunkId of
             Some chunk \<Rightarrow> Some (chunk_data chunk)
           | None \<Rightarrow>
               (case getChunk C chunkId of
                  Some fetchedChunk \<Rightarrow> Some (chunk_data fetchedChunk)
                | None \<Rightarrow> None)))"

text \<open>
  The loop of \<^verbatim>\<open>reassembleFile\<close> over the remaining chunk identifiers, with the array
  \<^verbatim>\<open>decryptedChunks\<close> built so far. \<^verbatim>\<open>!encryptedData\<close> holds of \<^verbatim>\<open>null\<close> and of the empty
  string. Decryption reads and updates the key caches of \<^verbatim>\<open>crypto.ts\<close>.
\<close>

fun reassembleChunks ::
  "'fs extractor_env \<Rightarrow> chunk_cache \<Rightarrow> FileEntry \<Rightarrow> jstring list \<Rightarrow> jstring list \<Rightarrow>
   crypto_state \<Rightarrow> (extract_error + jstring list) \<times> crypto_state" where
  "reassembleChunks E cache entry [] decryptedChunks st = (Inr decryptedChunks, st)"
| "reassembleChunks E cache entry (chunkId # rest) decryptedChunks st =
     (case getChunkData (client E) cache chunkId entry of
        None \<Rightarrow> (Inl (MissingChunk chunkId), st)
      | Some encryptedData \<Rightarrow>
          (if encryptedData = [] then (Inl (MissingChunk chunkId), st)
           else
             (case decryptChunk (crypto_prims E) encryptedData (passphrase E) st of
                (Inl e, st') \<Rightarrow> (Inl (DecryptFailed e), st')
              | (Inr decrypted, st') \<Rightarrow>
                  reassembleChunks E cache entry rest (decryptedChunks @ [decrypted]) st')))"

definition reassembleFile ::
  "'fs extractor_env \<Rightarrow> chunk_cache \<Rightarrow> FileEntry \<Rightarrow> crypto_state \<Rightarrow>
   (extract_error + jstring) \<times> crypto_state" where
  "reassembleFile E cache entry st =
     (case reassembleChunks E cache entry (children entry) [] st of
        (Inl e, st') \<Rightarrow> (Inl e, st')
      | (Inr decryptedChunks, st') \<Rightarrow> (Inr (concat decryptedChunks), st'))"

text \<open>
  What a run changes: the \<^verbatim>\<open>result\<close> it builds, the module state of \<^verbatim>\<open>crypto.ts\<close>, and
  the file system.
\<close>

record 'fs run_state =
  result :: ExtractionResult
  crypto :: crypto_state
  files :: 'fs

text \<open>The body of the loop \<^verbatim>\<open>for (const entry of fileEntries)\<close> with its \<^verbatim>\<open>try\<close>/\<^verbatim>\<open>catch\<close>.\<close>

definition extractEntry ::
  "'fs extractor_env \<Rightarrow> chunk_cache \<Rightarrow> jstring \<Rightarrow> FileEntry \<Rightarrow> 'fs run_state \<Rightarrow> 'fs run_state" where
  "extractEntry E cache outputDir entry rs =
     (let filePath = entry_id entry
      in if startsWith filePath (js ''.obsidian/'') then
           rs\<lparr>result := (result rs)\<lparr>skippedFiles := skippedFiles (result rs) @ [filePath]\<rparr>\<rparr>
         else
           (case reassembleFile E cache entry (crypto rs) of
              (Inl e, st') \<Rightarrow>
                rs\<lparr>result := (result rs)\<lparr>failedFiles := failedFiles (result rs) @ [filePath]\<rparr>,
                   crypto := st'\<rparr>
            | (Inr content, st') \<Rightarrow>
                (case writeFileSafely (deno_prims E) outputDir filePath content (files rs) of
                   (Some e, fs') \<Rightarrow>
                     rs\<lparr>result := (result rs)\<lparr>failedFiles := failedFiles (result rs) @ [filePath]\<rparr>,
                        crypto := st', files := fs'\<rparr>
                 | (None, fs') \<Rightarrow>
                     rs\<lparr>result := (result rs)\<lparr>extractedFiles := extractedFiles (result rs) + 1\<rparr>,
                        crypto := st', files := fs'\<rparr>)))"

fun extractLoop ::
  "'fs extractor_env \<Rightarrow> chunk_cache \<Rightarrow> jstring \<Rightarrow> FileEntry list \<Rightarrow> 'fs run_state \<Rightarrow> 'fs run_state" where
  "extractLoop E cache outputDir [] rs = rs"
| "extractLoop E cache outputDir (entry # rest) rs =
     extractLoop E cache outputDir rest (extractEntry E cache outputDir entry rs)"


section \<open>Properties\<close>

subsection \<open>Auxiliary notions\<close>

text \<open>
  A string is trimmed when it is empty or neither starts nor ends with white space.
\<close>

definition trimmed :: "jstring \<Rightarrow> bool" where
  "trimmed s = (s = [] \<or> (\<not> isWhiteSpace (hd s) \<and> \<not> isWhiteSpace (last s)))"

text \<open>
  The key caches are coherent for the primitives \<open>W\<close> when every key they can serve is the
  key a fresh derivation would compute: a cached master key whose passphrase is recorded
  was stretched from that passphrase under the configured global salt, and a legacy key
  stored for a passphrase and a salt is the legacy derivation from the two.
\<close>

definition cache_coherent :: "webcrypto \<Rightarrow> crypto_state \<Rightarrow> bool" where
  "cache_coherent W st =
     ((\<forall>p k. cachedPassphrase st = Some p \<longrightarrow> cachedHKDFKey st = Some k \<longrightarrow>
          (\<exists>s. globalPBKDF2Salt st = Some s
             \<and> k = pbkdf2_sha256 W (utf8_encode W p) s PBKDF2_ITERATIONS))
      \<and> (\<forall>p salt k. v2LegacyKeyCache st (legacyCacheKey p salt) = Some k \<longrightarrow>
          k = pbkdf2_sha256 W (sha256 W (utf8_encode W p)) salt V2_LEGACY_ITERATIONS))"

text \<open>
  The module state with a given global salt and empty caches.
\<close>

definition cold_state :: "bytes option \<Rightarrow> crypto_state" where
  "cold_state salt =
     \<lparr>globalPBKDF2Salt = salt, cachedHKDFKey = None, cachedPassphrase = None,
      v2LegacyKeyCache = Map.empty\<rparr>"

text \<open>
  The HKDF-expand scheme in closed form. The body after the prefix is re-padded and
  base64-decoded; fewer than 60 bytes are rejected; the first 12 bytes are the IV, the next
  32 the per-chunk salt, the rest ciphertext and tag; the key is the HKDF expansion, under
  the per-chunk salt, of the master key stretched from the passphrase with the global salt
  in 310000 iterations.
\<close>

definition hkdfOutcome :: "webcrypto \<Rightarrow> bytes option \<Rightarrow> jstring \<Rightarrow> jstring \<Rightarrow> crypto_error + jstring" where
  "hkdfOutcome W globalSalt body pass =
     (case atob (repad body) of
        None \<Rightarrow> Inl InvalidCharacterError
      | Some decoded \<Rightarrow>
          (let b = uint8ArrayFrom decoded
           in if length b < 60 then Inl (DataTooShort (length b))
              else
                (case globalSalt of
                   None \<Rightarrow> Inl SaltNotSet
                 | Some gs \<Rightarrow>
                     (case aes_gcm_decrypt W
                             (hkdf_sha256 W (pbkdf2_sha256 W (utf8_encode W pass) gs 310000)
                                (take 32 (drop 12 b)))
                             (take 12 b) (drop 44 b) of
                        None \<Rightarrow> Inl OperationError
                      | Some pt \<Rightarrow> Inr (utf8_decode W pt)))))"

text \<open>
  The legacy scheme in closed form. Fewer than 65 characters after the prefix are rejected;
  the first 32 characters are the IV in hexadecimal, the next 32 the salt in hexadecimal,
  the rest base64 of ciphertext and tag; the key is stretched from the SHA-256 digest of
  the passphrase with that salt in 100000 iterations.
\<close>

definition legacyOutcome :: "webcrypto \<Rightarrow> jstring \<Rightarrow> jstring \<Rightarrow> crypto_error + jstring" where
  "legacyOutcome W text pass =
     (if length text < 65 then Inl (LegacyTooShort (length text))
      else
        (case atob (repad (drop 64 text)) of
           None \<Rightarrow> Inl InvalidCharacterError
         | Some decoded \<Rightarrow>
             (case aes_gcm_decrypt W
                     (pbkdf2_sha256 W (sha256 W (utf8_encode W pass))
                        (hexStringToUint8Array (take 32 (drop 32 text))) 100000)
                     (hexStringToUint8Array (take 32 text)) (uint8ArrayFrom decoded) of
                None \<Rightarrow> Inl OperationError
              | Some pt \<Rightarrow> Inr (utf8_decode W pt))))"





text \<open>
  A run state with its list of skipped files replaced.
\<close>

definition withSkipped :: "jstring list \<Rightarrow> 'fs run_state \<Rightarrow> 'fs run_state" where
  "withSkipped sk rs = rs\<lparr>result := (result rs)\<lparr>skippedFiles := sk\<rparr>\<rparr>"



subsection \<open>Example inputs\<close>

text \<open>
  Concrete inputs at which the theorems below are instantiated. \<open>example_prims\<close> and
  \<open>example_deno\<close> stand in for the platform parameters; they are not models of the real
  primitives.
\<close>

definition example_prims :: webcrypto where
  "example_prims =
     \<lparr>pbkdf2_sha256 = (\<lambda>key salt n. key @ salt),
      hkdf_sha256 = (\<lambda>key salt. key @ salt),
      sha256 = (\<lambda>m. m),
      aes_gcm_decrypt = (\<lambda>key iv d. if length d < 16 then None else Some (take (length d - 16) d)),
      utf8_encode = map ucast,
      utf8_decode = map ucast\<rparr>"

definition example_legacy_payload :: jstring where
  "example_legacy_payload =
     js ''%000102030405060708090a0b0c0d0e0ff0e0d0c0b0a090807060504030201000aGVsbG8gd29ybGQhMDEyMzQ1Njc4OWFiY2RlZg''"

definition example_hkdf_payload :: jstring where
  "example_hkdf_payload =
     js ''%QUJDQUJDQUJDQUJDQUJDQUJDQUJDQUJDQUJDQUJDQUJDQUJDQUJDQUJDQUJDQUJDQUJDQUJDQUJDQUJDaGVsbG8gd29ybGQh''"

definition example_chunk :: LeafChunk where
  "example_chunk = \<lparr>chunk_id = js ''h:abc'', chunk_rev = js ''1-a'', chunk_data = js ''Hello, ''\<rparr>"

definition example_cache :: chunk_cache where
  "example_cache = Map.empty(js ''h:abc'' \<mapsto> example_chunk)"

definition example_note :: FileEntry where
  "example_note =
     \<lparr>entry_id = js ''notes/hello.md'', entry_rev = js ''1-b'', entry_path = js ''notes/hello.md'',
      children = [js ''h:abc'', js ''h:eden1''], entry_type = Plain,
      eden = Some (Map.empty(js ''h:eden1'' \<mapsto> js ''world'')), deleted = None\<rparr>"

definition example_broken :: FileEntry where
  "example_broken =
     \<lparr>entry_id = js ''notes/broken.md'', entry_rev = js ''1-c'', entry_path = js ''notes/broken.md'',
      children = [js ''h:abc'', js ''h:missing''], entry_type = Plain,
      eden = None, deleted = None\<rparr>"

definition example_internal :: FileEntry where
  "example_internal =
     \<lparr>entry_id = js ''.obsidian/app.json'', entry_rev = js ''1-d'',
      entry_path = js ''.obsidian/app.json'',
      children = [js ''h:abc''], entry_type = Plain, eden = None, deleted = None\<rparr>"

definition example_client :: couchdb_client where
  "example_client =
     \<lparr>getAllFileEntries = Some [example_note, example_broken, example_internal],
      getChunk = (\<lambda>chunkId. None),
      getChunks = (\<lambda>chunkIds. Some (filter (\<lambda>(cid, chunk). cid \<in> set chunkIds)
                                       [(js ''h:abc'', example_chunk)]))\<rparr>"

definition example_deno :: "(jstring \<times> jstring) list deno" where
  "example_deno =
     \<lparr>dirname = (\<lambda>p. rev (drop 1 (dropWhile (\<lambda>c. c \<noteq> CHAR_FORWARD_SLASH) (rev p)))),
      ensureDir = (\<lambda>dir fs. (True, fs)),
      writeTextFile = (\<lambda>file content fs. (True, fs @ [(file, content)]))\<rparr>"

definition example_env :: "(jstring \<times> jstring) list extractor_env" where
  "example_env =
     \<lparr>crypto_prims = example_prims, deno_prims = example_deno, client = example_client,
      passphrase = js ''secret''\<rparr>"


definition example_start :: "(jstring \<times> jstring) list run_state" where
  "example_start =
     \<lparr>result = \<lparr>totalFiles = 3, extractedFiles = 0, failedFiles = [], skippedFiles = []\<rparr>,
      crypto = initial_crypto_state, files = []\<rparr>"

definition example_short_hkdf :: jstring where
  "example_short_hkdf = js ''%=dG9vc2hvcnQ=''"

definition example_short_inline :: jstring where
  "example_short_inline = js ''%dG9vc2hvcnQ=''"

definition example_short_legacy :: jstring where
  "example_short_legacy = js ''%000102030405060708090a0b0c0d0e0fabcd''"

subsection \<open>The model on assertions of the test suite\<close>

text \<open>
  The assertions of the safety tests of the repository on \<open>isPathSafe\<close> and \<open>sanitizePath\<close> that the claims
  below do not repeat, and a run of the extraction loop on the example entries.
\<close>

lemma isPathSafe_test_suite:
  "\<not> isPathSafe (js ''/Users/someone/file.md'') (js ''/backup'')"
  "\<not> isPathSafe (js ''foo/../../bar'') (js ''/backup'')"
  "\<not> isPathSafe (js ''foo/../../../etc/passwd'') (js ''/backup'')"
  "\<not> isPathSafe (js ''..'' @ [CHAR_BACKWARD_SLASH] @ js ''..'' @ [CHAR_BACKWARD_SLASH]
                     @ js ''Windows'') (js ''/backup'')"
  "\<not> isPathSafe (js ''foo/bar'' @ [0] @ js ''baz'') (js ''/backup'')"
  "isPathSafe (js ''daily/2024/01/01.md'') (js ''/backup'')"
  "isPathSafe (js ''file.md'') (js ''/backup'')"
  "isPathSafe (js ''folder/subfolder/deep/file.txt'') (js ''/backup'')"
  "isPathSafe (js ''./file.md'') (js ''/backup'')"
  by code_simp+

lemma sanitizePath_test_suite:
  "sanitizePath (js ''foo//bar'') = js ''foo/bar''"
  "sanitizePath (js ''foo'' @ [CHAR_BACKWARD_SLASH] @ js ''bar'') = js ''foo/bar''"
  "sanitizePath (js ''  file.md  '') = js ''file.md''"
  by code_simp+

lemma example_run_result:
  "result (extractLoop example_env example_cache (js ''/backup'')
             [example_note, example_broken, example_internal] example_start)
   = \<lparr>totalFiles = 3, extractedFiles = 1, failedFiles = [js ''notes/broken.md''],
      skippedFiles = [js ''.obsidian/app.json'']\<rparr>"
  "files (extractLoop example_env example_cache (js ''/backup'')
            [example_note, example_broken, example_internal] example_start)
   = [(js ''/backup/notes/hello.md'', js ''Hello, world'')]"
  by code_simp+

subsection \<open>Sanitizing a path\<close>

lemma collapseSlashes_Cons: "\<exists>r. collapseSlashes (d # s) = d # r"
proof (induction s arbitrary: d)
  case Nil
  show ?case by simp
next
  case (Cons e s)
  from Cons[of e] obtain r where "collapseSlashes (e # s) = e # r" by blast
  then show ?case by (cases "d = CHAR_FORWARD_SLASH \<and> e = CHAR_FORWARD_SLASH") auto
qed

lemma collapseSlashes_idem: "collapseSlashes (collapseSlashes s) = collapseSlashes s"
proof (induction s rule: collapseSlashes.induct)
  case (1 c d s)
  obtain r where r: "collapseSlashes (d # s) = d # r"
    using collapseSlashes_Cons by blast
  show ?case
  proof (cases "c = CHAR_FORWARD_SLASH \<and> d = CHAR_FORWARD_SLASH")
    case True
    with 1 show ?thesis by simp
  next
    case False
    with 1 have ih: "collapseSlashes (collapseSlashes (d # s)) = collapseSlashes (d # s)" by simp
    from False have "collapseSlashes (c # d # s) = c # d # r" using r by auto
    moreover from False have "collapseSlashes (c # d # r) = c # collapseSlashes (d # r)" by auto
    moreover from ih r have "collapseSlashes (d # r) = d # r" by simp
    ultimately show ?thesis by simp
  qed
qed simp_all

lemma collapseSlashes_last: "s \<noteq> [] \<Longrightarrow> last (collapseSlashes s) = last s"
proof (induction s rule: collapseSlashes.induct)
  case (1 c d s)
  obtain r where r: "collapseSlashes (d # s) = d # r"
    using collapseSlashes_Cons by blast
  with 1 show ?case by (cases "c = CHAR_FORWARD_SLASH \<and> d = CHAR_FORWARD_SLASH") auto
qed simp_all

lemma collapseSlashes_hd: "hd (collapseSlashes s) = hd s"
  using collapseSlashes_Cons[of "hd s" "tl s"] by (cases s) auto

lemma collapseSlashes_Nil_iff: "collapseSlashes s = [] \<longleftrightarrow> s = []"
  using collapseSlashes_Cons[of "hd s" "tl s"] by (cases s) auto

lemma collapseSlashes_set: "set (collapseSlashes s) \<subseteq> set s"
  by (induction s rule: collapseSlashes.induct) auto

lemma replaceBackslashes_fixed:
  "CHAR_BACKWARD_SLASH \<notin> set s \<Longrightarrow> replaceBackslashes s = s"
  by (induction s) (auto simp: replaceBackslashes_def)

lemma replaceBackslashes_free: "CHAR_BACKWARD_SLASH \<notin> set (replaceBackslashes s)"
  by (auto simp: replaceBackslashes_def CHAR_BACKWARD_SLASH_def CHAR_FORWARD_SLASH_def)

lemma not_ws_slash: "\<not> isWhiteSpace CHAR_FORWARD_SLASH"
  by (simp add: isWhiteSpace_def CHAR_FORWARD_SLASH_def)

lemma dropWhile_rev_last: "xs \<noteq> [] \<Longrightarrow> \<not> P (last xs) \<Longrightarrow> dropWhile P (rev xs) = rev xs"
  by (cases xs rule: rev_cases) auto

lemma last_dropWhile: "dropWhile P xs \<noteq> [] \<Longrightarrow> last (dropWhile P xs) = last xs"
  by (induction xs) auto

lemma trim_trimmed: "trimmed s \<Longrightarrow> trim s = s"
proof (cases s)
  case Nil
  then show ?thesis by (simp add: trim_def)
next
  case (Cons a t)
  assume "trimmed s"
  with Cons have h: "\<not> isWhiteSpace a" and l: "\<not> isWhiteSpace (last s)"
    by (auto simp: trimmed_def)
  from h Cons have 1: "dropWhile isWhiteSpace s = s" by simp
  from Cons l have "dropWhile isWhiteSpace (rev s) = rev s"
    by (intro dropWhile_rev_last) simp_all
  with 1 show ?thesis by (simp add: trim_def)
qed

lemma trimmed_trim: "trimmed (trim s)"
proof -
  let ?t = "dropWhile isWhiteSpace s"
  let ?u = "dropWhile isWhiteSpace (rev ?t)"
  show ?thesis
  proof (cases "?u = []")
    case True
    then show ?thesis by (simp add: trim_def trimmed_def)
  next
    case False
    then have hu: "\<not> isWhiteSpace (hd ?u)" by (simp add: hd_dropWhile)
    from False have tne: "?t \<noteq> []" by (cases "?t = []") simp_all
    then have ht: "\<not> isWhiteSpace (hd ?t)" by (simp add: hd_dropWhile)
    from False have "last ?u = last (rev ?t)" by (rule last_dropWhile)
    also from tne have "\<dots> = hd ?t" by (simp add: last_rev)
    finally have lu: "\<not> isWhiteSpace (last ?u)" using ht by simp
    from False hu lu show ?thesis
      by (simp add: trim_def trimmed_def hd_rev last_rev)
  qed
qed

lemma trimmed_replaceBackslashes: "trimmed s \<Longrightarrow> trimmed (replaceBackslashes s)"
  by (cases s)
     (auto simp: trimmed_def replaceBackslashes_def not_ws_slash hd_map last_map)

lemma trimmed_collapseSlashes: "trimmed s \<Longrightarrow> trimmed (collapseSlashes s)"
  by (auto simp: trimmed_def collapseSlashes_hd collapseSlashes_last collapseSlashes_Nil_iff)

text \<open>
  Claim C9. \<open>sanitizePath\<close> is idempotent: for every string \<open>p\<close>, sanitizing the sanitized
  string gives the sanitized string again. Trimming white space, turning backslashes into
  slashes and collapsing runs of slashes a second time changes nothing.
\<close>

theorem sanitizePath_idempotent: "sanitizePath (sanitizePath p) = sanitizePath p"
proof -
  let ?q = "sanitizePath p"
  have "trimmed ?q"
    unfolding sanitizePath_def
    by (intro trimmed_collapseSlashes trimmed_replaceBackslashes trimmed_trim)
  then have 1: "trim ?q = ?q" by (rule trim_trimmed)
  have "CHAR_BACKWARD_SLASH \<notin> set ?q"
    unfolding sanitizePath_def
    using collapseSlashes_set replaceBackslashes_free by blast
  then have 2: "replaceBackslashes ?q = ?q" by (rule replaceBackslashes_fixed)
  have 3: "collapseSlashes ?q = ?q"
    unfolding sanitizePath_def by (rule collapseSlashes_idem)
  show ?thesis
    using 1 2 3 by (simp add: sanitizePath_def[of "sanitizePath p"])
qed

text \<open>
  Claim C9 at a concrete input with white space, a backslash and a doubled slash.
\<close>

theorem sanitizePath_idempotent_witness:
  "sanitizePath (sanitizePath (js ''  notes//sub'' @ [CHAR_BACKWARD_SLASH] @ js ''a.md ''))
   = sanitizePath (js ''  notes//sub'' @ [CHAR_BACKWARD_SLASH] @ js ''a.md '')"
  by (rule sanitizePath_idempotent)

subsection \<open>Coherence of the key caches\<close>


lemma initial_coherent: "cache_coherent W initial_crypto_state"
  by (simp add: cache_coherent_def initial_crypto_state_def)

lemma setPBKDF2Salt_coherent: "cache_coherent W st \<Longrightarrow> cache_coherent W (setPBKDF2Salt salt st)"
  by (simp add: cache_coherent_def setPBKDF2Salt_def)

lemma getHKDFMasterKey_coherent:
  assumes "cache_coherent W st"
  shows "fst (getHKDFMasterKey W p st) =
           (case globalPBKDF2Salt st of None \<Rightarrow> Inl SaltNotSet
            | Some s \<Rightarrow> Inr (pbkdf2_sha256 W (utf8_encode W p) s PBKDF2_ITERATIONS))"
    and "cache_coherent W (snd (getHKDFMasterKey W p st))"
    and "globalPBKDF2Salt (snd (getHKDFMasterKey W p st)) = globalPBKDF2Salt st"
  using assms
  by (auto simp: getHKDFMasterKey_def cache_coherent_def Let_def split: option.splits if_splits)

lemma hexDigit_roundtrip_all: "\<forall>n \<in> set [0..<16]. hexDigitValue (hexDigitChar n) = Some n"
  by code_simp

lemma hexDigitValue_hexDigitChar: "n < 16 \<Longrightarrow> hexDigitValue (hexDigitChar n) = Some n"
  using hexDigit_roundtrip_all by simp

lemma hexDigitValue_colon: "hexDigitValue 0x3A = None"
  by (simp add: hexDigitValue_def)

lemma byte_digits: "unat (b :: 8 word) div 16 < 16" "unat b mod 16 < 16"
proof -
  have "unat b < 2 ^ LENGTH(8)" by (rule unsigned_less)
  then show "unat b div 16 < 16" by simp
  show "unat b mod 16 < 16" by simp
qed

lemma byteToHex_inj: "byteToHex b = byteToHex b' \<Longrightarrow> b = b'"
proof -
  assume "byteToHex b = byteToHex b'"
  then have "hexDigitChar (unat b div 16) = hexDigitChar (unat b' div 16)"
    and "hexDigitChar (unat b mod 16) = hexDigitChar (unat b' mod 16)"
    by (simp_all add: byteToHex_def)
  then have "hexDigitValue (hexDigitChar (unat b div 16)) = hexDigitValue (hexDigitChar (unat b' div 16))"
    and "hexDigitValue (hexDigitChar (unat b mod 16)) = hexDigitValue (hexDigitChar (unat b' mod 16))"
    by simp_all
  then have "unat b div 16 = unat b' div 16" and "unat b mod 16 = unat b' mod 16"
    by (simp_all add: hexDigitValue_hexDigitChar byte_digits)
  then have "unat b = unat b'"
    by (metis div_mult_mod_eq)
  then show "b = b'" by (simp add: word_unat_eq_iff)
qed

lemma byteToHex_no_colon: "0x3A \<notin> set (byteToHex b)"
proof
  assume "0x3A \<in> set (byteToHex b)"
  then have "hexDigitChar (unat b div 16) = 0x3A \<or> hexDigitChar (unat b mod 16) = 0x3A"
    by (auto simp: byteToHex_def)
  then obtain n where "n < 16" and "hexDigitChar n = 0x3A"
    using byte_digits[of b] by blast
  then show False
    using hexDigitValue_hexDigitChar[of n] hexDigitValue_colon by simp
qed

lemma saltHex_no_colon: "0x3A \<notin> set (concat (map byteToHex salt))"
  using byteToHex_no_colon by auto

lemma saltHex_inj: "concat (map byteToHex s) = concat (map byteToHex s') \<Longrightarrow> s = s'"
proof (induction s arbitrary: s')
  case Nil
  then show ?case by (cases s') (simp_all add: byteToHex_def)
next
  case (Cons b s)
  show ?case
  proof (cases s')
    case Nil
    with Cons.prems show ?thesis by (simp add: byteToHex_def)
  next
    case (Cons b' t)
    have len: "length (byteToHex b) = length (byteToHex b')" by (simp add: byteToHex_def)
    from Cons.prems Cons
    have "byteToHex b @ concat (map byteToHex s) = byteToHex b' @ concat (map byteToHex t)"
      by simp
    with len have "byteToHex b = byteToHex b'"
      and "concat (map byteToHex s) = concat (map byteToHex t)"
      by simp_all
    with Cons.IH Cons show ?thesis by (simp add: byteToHex_inj)
  qed
qed

lemma split_at_last: 
  "c \<notin> set ys \<Longrightarrow> c \<notin> set ys' \<Longrightarrow> xs @ c # ys = xs' @ c # ys' \<Longrightarrow> xs = xs' \<and> ys = ys'"
proof (induction xs arbitrary: xs')
  case Nil
  then show ?case by (cases xs') auto
next
  case (Cons a xs)
  then show ?case by (cases xs') auto
qed

lemma legacyCacheKey_inj:
  "legacyCacheKey p s = legacyCacheKey p' s' \<Longrightarrow> p = p' \<and> s = s'"
proof -
  assume "legacyCacheKey p s = legacyCacheKey p' s'"
  then have "p @ 0x3A # concat (map byteToHex s) = p' @ 0x3A # concat (map byteToHex s')"
    by (simp add: legacyCacheKey_def js_def)
  then have "p = p' \<and> concat (map byteToHex s) = concat (map byteToHex s')"
    by (rule split_at_last[OF saltHex_no_colon saltHex_no_colon])
  then show ?thesis by (simp add: saltHex_inj)
qed

lemma deriveV2LegacyKey_coherent:
  assumes "cache_coherent W st"
  shows "fst (deriveV2LegacyKey W p salt st) =
           pbkdf2_sha256 W (sha256 W (utf8_encode W p)) salt V2_LEGACY_ITERATIONS"
    and "cache_coherent W (snd (deriveV2LegacyKey W p salt st))"
    and "globalPBKDF2Salt (snd (deriveV2LegacyKey W p salt st)) = globalPBKDF2Salt st"
  using assms
  by (auto simp: deriveV2LegacyKey_def cache_coherent_def Let_def
           dest: legacyCacheKey_inj split: option.splits)

lemma cold_state_salt [simp]: "globalPBKDF2Salt (cold_state salt) = salt"
  by (simp add: cold_state_def)

lemma deriveChunkKeyHKDF_coherent:
  assumes "cache_coherent W st"
  shows "fst (deriveChunkKeyHKDF W p hs st) =
           (case globalPBKDF2Salt st of None \<Rightarrow> Inl SaltNotSet
            | Some s \<Rightarrow> Inr (hkdf_sha256 W (pbkdf2_sha256 W (utf8_encode W p) s PBKDF2_ITERATIONS) hs))"
    and "cache_coherent W (snd (deriveChunkKeyHKDF W p hs st))"
    and "globalPBKDF2Salt (snd (deriveChunkKeyHKDF W p hs st)) = globalPBKDF2Salt st"
proof -
  obtain r st' where g: "getHKDFMasterKey W p st = (r, st')" by fastforce
  from getHKDFMasterKey_coherent[OF assms, of p] g
  have r: "r = (case globalPBKDF2Salt st of None \<Rightarrow> Inl SaltNotSet
            | Some s \<Rightarrow> Inr (pbkdf2_sha256 W (utf8_encode W p) s PBKDF2_ITERATIONS))"
    and c: "cache_coherent W st'" and s: "globalPBKDF2Salt st' = globalPBKDF2Salt st"
    by simp_all
  show "fst (deriveChunkKeyHKDF W p hs st) =
           (case globalPBKDF2Salt st of None \<Rightarrow> Inl SaltNotSet
            | Some s \<Rightarrow> Inr (hkdf_sha256 W (pbkdf2_sha256 W (utf8_encode W p) s PBKDF2_ITERATIONS) hs))"
    using r by (simp add: deriveChunkKeyHKDF_def g split: option.splits)
  show "cache_coherent W (snd (deriveChunkKeyHKDF W p hs st))"
    using c by (simp add: deriveChunkKeyHKDF_def g split: sum.splits)
  show "globalPBKDF2Salt (snd (deriveChunkKeyHKDF W p hs st)) = globalPBKDF2Salt st"
    using s by (simp add: deriveChunkKeyHKDF_def g split: sum.splits)
qed

subsection \<open>Decryption is independent of the cache contents\<close>

lemma slice_from_nat [simp]: "slice_from s (int n) = drop n s"
  by (cases "n \<le> length s") (simp_all add: slice_from_def slice_index_def min_def)

lemma slice_nat [simp]: "slice s (int a) (int b) = take (b - a) (drop a s)"
  by (cases "a \<le> length s"; cases "b \<le> length s")
     (auto simp: slice_def slice_index_def Let_def min_def)

lemma slice_0 [simp]: "slice s 0 (int b) = take b s"
  using slice_nat[of s 0 b] by simp

lemma slice_from_numeral [simp]: "slice_from s (numeral k) = drop (numeral k) s"
  using slice_from_nat[of s "numeral k"] by simp

lemma slice_from_1 [simp]: "slice_from s 1 = drop 1 s"
  using slice_from_nat[of s 1] by simp

lemma slice_0_numeral [simp]: "slice s 0 (numeral b) = take (numeral b) s"
  using slice_0[of s "numeral b"] by simp

lemma slice_numeral [simp]:
  "slice s (numeral a) (numeral b) = take (numeral b - numeral a) (drop (numeral a) s)"
  using slice_nat[of s "numeral a" "numeral b"] by simp

lemma prefix_lengths [simp]: "length HKDF_PREFIX = 2" "length INLINE_PREFIX = 1"
  by (simp_all add: HKDF_PREFIX_def INLINE_PREFIX_def js_def)

lemma decryptHKDF_coherent_all:
  assumes "cache_coherent W st"
  shows "fst (decryptHKDF W d p st) = hkdfOutcome W (globalPBKDF2Salt st) (drop 2 d) p
       \<and> cache_coherent W (snd (decryptHKDF W d p st))
       \<and> globalPBKDF2Salt (snd (decryptHKDF W d p st)) = globalPBKDF2Salt st"
proof (cases "atob (repad (drop 2 d))")
  case None
  with assms show ?thesis by (simp add: decryptHKDF_def hkdfOutcome_def)
next
  case (Some decoded)
  let ?b = "uint8ArrayFrom decoded"
  show ?thesis
  proof (cases "length ?b < 60")
    case True
    with Some assms show ?thesis by (simp add: decryptHKDF_def hkdfOutcome_def)
  next
    case False
    obtain r st' where g: "deriveChunkKeyHKDF W p (take 32 (drop 12 ?b)) st = (r, st')"
      by fastforce
    from deriveChunkKeyHKDF_coherent[OF assms, of p "take 32 (drop 12 ?b)"] g
    have r: "r = (case globalPBKDF2Salt st of None \<Rightarrow> Inl SaltNotSet
            | Some s \<Rightarrow> Inr (hkdf_sha256 W (pbkdf2_sha256 W (utf8_encode W p) s PBKDF2_ITERATIONS)
                               (take 32 (drop 12 ?b))))"
      and c: "cache_coherent W st'" and s: "globalPBKDF2Salt st' = globalPBKDF2Salt st"
      by simp_all
    from Some False g r c s show ?thesis
      by (simp add: decryptHKDF_def hkdfOutcome_def Let_def PBKDF2_ITERATIONS_def
               split: option.splits)
  qed
qed

lemma decryptV2Legacy_coherent_all:
  assumes "cache_coherent W st"
  shows "fst (decryptV2Legacy W d p st) = legacyOutcome W (drop 1 d) p
       \<and> cache_coherent W (snd (decryptV2Legacy W d p st))
       \<and> globalPBKDF2Salt (snd (decryptV2Legacy W d p st)) = globalPBKDF2Salt st"
proof (cases "length (drop 1 d) < 65")
  case True
  with assms show ?thesis by (simp add: decryptV2Legacy_def legacyOutcome_def)
next
  case False
  let ?t = "drop 1 d"
  show ?thesis
  proof (cases "atob (repad (drop 64 ?t))")
    case None
    with False assms show ?thesis by (simp add: decryptV2Legacy_def legacyOutcome_def)
  next
    case (Some decoded)
    let ?salt = "hexStringToUint8Array (take 32 (drop 32 ?t))"
    obtain k st' where g: "deriveV2LegacyKey W p ?salt st = (k, st')" by fastforce
    from deriveV2LegacyKey_coherent[OF assms, of p ?salt] g
    have k: "k = pbkdf2_sha256 W (sha256 W (utf8_encode W p)) ?salt V2_LEGACY_ITERATIONS"
      and c: "cache_coherent W st'" and s: "globalPBKDF2Salt st' = globalPBKDF2Salt st"
      by simp_all
    from False Some g k c s show ?thesis
      by (simp add: decryptV2Legacy_def legacyOutcome_def Let_def V2_LEGACY_ITERATIONS_def
               split: option.splits)
  qed
qed



subsection \<open>Reassembling a document\<close>







subsection \<open>Skipped entries\<close>

lemma withSkipped_simps [simp]:
  "withSkipped a (withSkipped b rs) = withSkipped a rs"
  "withSkipped (skippedFiles (result rs)) rs = rs"
  "crypto (withSkipped a rs) = crypto rs"
  "files (withSkipped a rs) = files rs"
  "skippedFiles (result (withSkipped a rs)) = a"
  "failedFiles (result (withSkipped a rs)) = failedFiles (result rs)"
  "extractedFiles (result (withSkipped a rs)) = extractedFiles (result rs)"
  "totalFiles (result (withSkipped a rs)) = totalFiles (result rs)"
  by (simp_all add: withSkipped_def)







subsection \<open>Isolation of a failed document\<close>














subsection \<open>Path validation\<close>

text \<open>
  Claim C1 says that a path accepted by \<open>isPathSafe\<close> lies strictly inside the base
  directory. The code compares strings, not directories. It accepts \<^verbatim>\<open>../backup2/x\<close> against
  the base \<^verbatim>\<open>/backup\<close>, although the joined path \<^verbatim>\<open>/backup2/x\<close> is outside the directory
  \<^verbatim>\<open>/backup\<close>; and it accepts \<^verbatim>\<open>notes/../\<close>, although the joined path \<^verbatim>\<open>/backup/\<close> is the base
  directory itself.
\<close>

theorem isPathSafe_accepts_sibling_directory:
  "isPathSafe (js ''../backup2/x'') (js ''/backup'')
   \<and> normalize (join [js ''/backup'', replaceBackslashes (js ''../backup2/x'')]) = js ''/backup2/x''
   \<and> \<not> startsWith (js ''/backup2/x'') (js ''/backup/'')
   \<and> isPathSafe (js ''notes/../'') (js ''/backup'')
   \<and> normalize (join [js ''/backup'', replaceBackslashes (js ''notes/../'')]) = js ''/backup/''"
  by code_simp







subsection \<open>Format detection and the master-key cache\<close>

text \<open>
  Claim C6. For every string that starts with neither \<^verbatim>\<open>%=\<close> nor \<^verbatim>\<open>%\<close>, every passphrase,
  all primitives and every module state, \<open>decryptChunk\<close> returns the string unchanged and
  leaves the module state unchanged: nothing is decoded and no key is derived.
\<close>

theorem decryptChunk_plaintext_passthrough:
  assumes "\<not> startsWith data HKDF_PREFIX" and "\<not> startsWith data INLINE_PREFIX"
  shows "decryptChunk W data pass st = (Inr data, st)"
  using assms by (simp add: decryptChunk_def isV2Encrypted_def)

text \<open>
  Claim C6 at a concrete plaintext.
\<close>

theorem decryptChunk_plaintext_passthrough_witness:
  "\<not> startsWith (js ''This is not encrypted'') HKDF_PREFIX
   \<and> \<not> startsWith (js ''This is not encrypted'') INLINE_PREFIX
   \<and> decryptChunk example_prims (js ''This is not encrypted'') (js ''any-passphrase'')
        initial_crypto_state
      = (Inr (js ''This is not encrypted''), initial_crypto_state)"
proof -
  have h1: "\<not> startsWith (js ''This is not encrypted'') HKDF_PREFIX" by code_simp
  have h2: "\<not> startsWith (js ''This is not encrypted'') INLINE_PREFIX" by code_simp
  from decryptChunk_plaintext_passthrough[OF h1 h2] h1 h2 show ?thesis by blast
qed



text \<open>
  Claim C7. A payload in the HKDF-expand layout whose body decodes to fewer than 60 bytes
  is rejected with \<open>DataTooShort\<close>, and a legacy payload with fewer than 65 characters after
  the prefix is rejected with \<open>LegacyTooShort\<close>; in both cases the module state is unchanged
  and the result does not depend on the primitives, so no key is derived and no
  authenticated decryption is attempted. This holds of \<open>decryptHKDF\<close> and
  \<open>decryptV2Legacy\<close>, and of \<open>decryptChunk\<close> for each of the three ways a payload reaches
  them.
\<close>

theorem short_payloads_rejected:
  "(atob (repad (drop 2 payload)) = Some decoded \<and> length decoded < 60 \<longrightarrow>
      decryptHKDF W payload pass st = (Inl (DataTooShort (length decoded)), st))
   \<and> (length (drop 1 payload) < 65 \<longrightarrow>
      decryptV2Legacy W payload pass st = (Inl (LegacyTooShort (length (drop 1 payload))), st))
   \<and> (startsWith payload HKDF_PREFIX \<and> atob (repad (drop 2 payload)) = Some decoded
        \<and> length decoded < 60 \<longrightarrow>
      decryptChunk W payload pass st = (Inl (DataTooShort (length decoded)), st))
   \<and> (startsWith payload INLINE_PREFIX \<and> \<not> startsWith payload HKDF_PREFIX
        \<and> \<not> isHexFormat (take 32 (drop 1 payload))
        \<and> atob (repad (drop 1 payload)) = Some decoded \<and> length decoded < 60 \<longrightarrow>
      decryptChunk W payload pass st = (Inl (DataTooShort (length decoded)), st))
   \<and> (startsWith payload INLINE_PREFIX \<and> \<not> startsWith payload HKDF_PREFIX
        \<and> isHexFormat (take 32 (drop 1 payload)) \<and> length (drop 1 payload) < 65 \<longrightarrow>
      decryptChunk W payload pass st = (Inl (LegacyTooShort (length (drop 1 payload))), st))"
  by (auto simp: decryptChunk_def decryptV2_def decryptHKDF_def decryptV2Legacy_def
        isV2Encrypted_def uint8ArrayFrom_def Let_def)

text \<open>
  Claim C7 at three concrete short payloads, one for each way.
\<close>

theorem short_payloads_rejected_witness:
  "atob (repad (drop 2 example_short_hkdf)) = Some (js ''tooshort'')
   \<and> length (js ''tooshort'') < 60
   \<and> startsWith example_short_hkdf HKDF_PREFIX
   \<and> decryptHKDF example_prims example_short_hkdf (js ''secret'') initial_crypto_state
      = (Inl (DataTooShort (length (js ''tooshort''))), initial_crypto_state)
   \<and> decryptChunk example_prims example_short_hkdf (js ''secret'') initial_crypto_state
      = (Inl (DataTooShort (length (js ''tooshort''))), initial_crypto_state)
   \<and> startsWith example_short_inline INLINE_PREFIX
   \<and> \<not> startsWith example_short_inline HKDF_PREFIX
   \<and> \<not> isHexFormat (take 32 (drop 1 example_short_inline))
   \<and> atob (repad (drop 1 example_short_inline)) = Some (js ''tooshort'')
   \<and> decryptChunk example_prims example_short_inline (js ''secret'') initial_crypto_state
      = (Inl (DataTooShort (length (js ''tooshort''))), initial_crypto_state)
   \<and> startsWith example_short_legacy INLINE_PREFIX
   \<and> \<not> startsWith example_short_legacy HKDF_PREFIX
   \<and> isHexFormat (take 32 (drop 1 example_short_legacy))
   \<and> length (drop 1 example_short_legacy) < 65
   \<and> decryptV2Legacy example_prims example_short_legacy (js ''secret'') initial_crypto_state
      = (Inl (LegacyTooShort (length (drop 1 example_short_legacy))), initial_crypto_state)
   \<and> decryptChunk example_prims example_short_legacy (js ''secret'') initial_crypto_state
      = (Inl (LegacyTooShort (length (drop 1 example_short_legacy))), initial_crypto_state)"
proof -
  have a1: "atob (repad (drop 2 example_short_hkdf)) = Some (js ''tooshort'')" by code_simp
  have a2: "length (js ''tooshort'') < 60" by (simp add: js_def)
  have a3: "startsWith example_short_hkdf HKDF_PREFIX" by code_simp
  have b1: "startsWith example_short_inline INLINE_PREFIX" by code_simp
  have b2: "\<not> startsWith example_short_inline HKDF_PREFIX" by code_simp
  have b3: "\<not> isHexFormat (take 32 (drop 1 example_short_inline))" by code_simp
  have b4: "atob (repad (drop 1 example_short_inline)) = Some (js ''tooshort'')" by code_simp
  have c1: "startsWith example_short_legacy INLINE_PREFIX" by code_simp
  have c2: "\<not> startsWith example_short_legacy HKDF_PREFIX" by code_simp
  have c3: "isHexFormat (take 32 (drop 1 example_short_legacy))" by code_simp
  have c4: "length (drop 1 example_short_legacy) < 65"
    by (simp add: example_short_legacy_def js_def)
  note ta = short_payloads_rejected[of example_short_hkdf "js ''tooshort''" example_prims
              "js ''secret''" initial_crypto_state]
  note tb = short_payloads_rejected[of example_short_inline "js ''tooshort''" example_prims
              "js ''secret''" initial_crypto_state]
  note tc = short_payloads_rejected[of example_short_legacy "[]" example_prims
              "js ''secret''" initial_crypto_state]
  note r1 = ta[THEN conjunct1, THEN mp, OF conjI[OF a1 a2]]
  note r3 = ta[THEN conjunct2, THEN conjunct2, THEN conjunct1, THEN mp,
               OF conjI[OF a3 conjI[OF a1 a2]]]
  note r4 = tb[THEN conjunct2, THEN conjunct2, THEN conjunct2, THEN conjunct1, THEN mp,
               OF conjI[OF b1 conjI[OF b2 conjI[OF b3 conjI[OF b4 a2]]]]]
  note r2 = tc[THEN conjunct2, THEN conjunct1, THEN mp, OF c4]
  note r5 = tc[THEN conjunct2, THEN conjunct2, THEN conjunct2, THEN conjunct2, THEN mp,
               OF conjI[OF c1 conjI[OF c2 conjI[OF c3 c4]]]]
  show ?thesis
    by (intro conjI) (fact a1 a2 a3 b1 b2 b3 b4 c1 c2 c3 c4 r1 r2 r3 r4 r5)+
qed

text \<open>
  Claim C3. For every payload that starts with \<^verbatim>\<open>%\<close> but not with \<^verbatim>\<open>%=\<close>: if the 32
  characters after the prefix are all hexadecimal digits, \<open>decryptV2\<close> is \<open>decryptV2Legacy\<close>
  on the payload, and from coherent caches its outcome is that of the legacy scheme;
  otherwise (also when fewer than 32 characters follow) it is \<open>decryptHKDF\<close> on the payload
  with the prefix \<^verbatim>\<open>%=\<close> put in place of \<^verbatim>\<open>%\<close>, and from coherent caches its outcome is that
  of the HKDF-expand scheme under the configured global salt.
\<close>

theorem overloaded_prefix_disambiguation:
  assumes "startsWith payload INLINE_PREFIX" and "\<not> startsWith payload HKDF_PREFIX"
  shows "(isHexFormat (take 32 (drop 1 payload)) \<longrightarrow>
            decryptV2 W payload pass st = decryptV2Legacy W payload pass st
            \<and> (cache_coherent W st \<longrightarrow>
                 fst (decryptV2 W payload pass st) = legacyOutcome W (drop 1 payload) pass))
       \<and> (\<not> isHexFormat (take 32 (drop 1 payload)) \<longrightarrow>
            decryptV2 W payload pass st = decryptHKDF W (HKDF_PREFIX @ drop 1 payload) pass st
            \<and> (cache_coherent W st \<longrightarrow>
                 fst (decryptV2 W payload pass st) =
                   hkdfOutcome W (globalPBKDF2Salt st) (drop 1 payload) pass))"
proof -
  have hex: "isHexFormat (take 32 (drop 1 payload)) \<Longrightarrow>
      decryptV2 W payload pass st = decryptV2Legacy W payload pass st"
    using assms by (simp add: decryptV2_def Let_def)
  have nonhex: "\<not> isHexFormat (take 32 (drop 1 payload)) \<Longrightarrow>
      decryptV2 W payload pass st = decryptHKDF W (HKDF_PREFIX @ drop 1 payload) pass st"
    using assms by (simp add: decryptV2_def Let_def)
  have l: "cache_coherent W st \<Longrightarrow>
      fst (decryptV2Legacy W payload pass st) = legacyOutcome W (drop 1 payload) pass"
    using decryptV2Legacy_coherent_all[of W st payload pass] by simp
  have h: "cache_coherent W st \<Longrightarrow>
      fst (decryptHKDF W (HKDF_PREFIX @ drop 1 payload) pass st) =
        hkdfOutcome W (globalPBKDF2Salt st) (drop 1 payload) pass"
    using decryptHKDF_coherent_all[of W st "HKDF_PREFIX @ drop 1 payload" pass] by simp
  from hex nonhex l h show ?thesis by simp
qed

text \<open>
  Claim C3 at a concrete legacy payload and a concrete payload in the HKDF-expand layout.
\<close>

theorem overloaded_prefix_disambiguation_witness:
  "startsWith example_legacy_payload INLINE_PREFIX
   \<and> \<not> startsWith example_legacy_payload HKDF_PREFIX
   \<and> isHexFormat (take 32 (drop 1 example_legacy_payload))
   \<and> cache_coherent example_prims (setPBKDF2Salt [1, 2, 3] initial_crypto_state)
   \<and> decryptV2 example_prims example_legacy_payload (js ''secret'')
        (setPBKDF2Salt [1, 2, 3] initial_crypto_state)
      = decryptV2Legacy example_prims example_legacy_payload (js ''secret'')
          (setPBKDF2Salt [1, 2, 3] initial_crypto_state)
   \<and> fst (decryptV2 example_prims example_legacy_payload (js ''secret'')
            (setPBKDF2Salt [1, 2, 3] initial_crypto_state))
      = legacyOutcome example_prims (drop 1 example_legacy_payload) (js ''secret'')
   \<and> startsWith example_hkdf_payload INLINE_PREFIX
   \<and> \<not> startsWith example_hkdf_payload HKDF_PREFIX
   \<and> \<not> isHexFormat (take 32 (drop 1 example_hkdf_payload))
   \<and> decryptV2 example_prims example_hkdf_payload (js ''secret'')
        (setPBKDF2Salt [1, 2, 3] initial_crypto_state)
      = decryptHKDF example_prims (HKDF_PREFIX @ drop 1 example_hkdf_payload) (js ''secret'')
          (setPBKDF2Salt [1, 2, 3] initial_crypto_state)
   \<and> fst (decryptV2 example_prims example_hkdf_payload (js ''secret'')
            (setPBKDF2Salt [1, 2, 3] initial_crypto_state))
      = hkdfOutcome example_prims (globalPBKDF2Salt (setPBKDF2Salt [1, 2, 3] initial_crypto_state))
          (drop 1 example_hkdf_payload) (js ''secret'')"
proof -
  let ?st = "setPBKDF2Salt [1, 2, 3] initial_crypto_state"
  have c: "cache_coherent example_prims ?st"
    by (simp add: cache_coherent_def setPBKDF2Salt_def initial_crypto_state_def)
  have l1: "startsWith example_legacy_payload INLINE_PREFIX" by code_simp
  have l2: "\<not> startsWith example_legacy_payload HKDF_PREFIX" by code_simp
  have l3: "isHexFormat (take 32 (drop 1 example_legacy_payload))" by code_simp
  have h1: "startsWith example_hkdf_payload INLINE_PREFIX" by code_simp
  have h2: "\<not> startsWith example_hkdf_payload HKDF_PREFIX" by code_simp
  have h3: "\<not> isHexFormat (take 32 (drop 1 example_hkdf_payload))" by code_simp
  note t1 = overloaded_prefix_disambiguation[OF l1 l2, of example_prims "js ''secret''" ?st]
  note L = t1[THEN conjunct1, THEN mp, OF l3]
  note LA = L[THEN conjunct1] and LB = L[THEN conjunct2, THEN mp, OF c]
  note t2 = overloaded_prefix_disambiguation[OF h1 h2, of example_prims "js ''secret''" ?st]
  note H = t2[THEN conjunct2, THEN mp, OF h3]
  note HA = H[THEN conjunct1] and HB = H[THEN conjunct2, THEN mp, OF c]
  show ?thesis
    by (intro conjI) (fact l1 l2 l3 c LA LB h1 h2 h3 HA HB)+
qed

end
